theory Spec2Isabelle
  imports Main
begin

section \<open>Community challenge router: data model\<close>

text \<open>
  The router of \<^verbatim>\<open>src/Backend/config/db.js\<close> (second document of the file) serves
  \<^verbatim>\<open>POST /create\<close>, \<^verbatim>\<open>POST /join/:challengeId\<close>, \<^verbatim>\<open>POST /accept/:challengeId\<close> and
  \<^verbatim>\<open>POST /complete/:challengeId\<close> over three Mongoose collections and a socket server.

  Identifiers: a Mongo ObjectId is a natural number; a user identity is the string that
  \<^verbatim>\<open>userId.toString()\<close> yields; a socket id is a string. Request bodies are taken at the
  shape the handlers destructure (\<^verbatim>\<open>{communityId, name, description, exercises, stake}\<close>
  with \<^verbatim>\<open>stake\<close> an object carrying \<^verbatim>\<open>amount\<close>, and \<^verbatim>\<open>{userId}\<close>); the store
  calls are taken to succeed, so the \<^verbatim>\<open>catch\<close> branches are reached only by the
  exceptions the handler code itself raises.
\<close>

type_synonym object_id = nat
type_synonym user_id = string
type_synonym socket_id = string
type_synonym date = nat

record stake =
  amount :: int

record participant =
  p_userId :: user_id
  accepted :: bool
  stakeSubmitted :: bool
  completed :: bool
  completedAt :: "date option"

record challenge =
  ch_communityId :: object_id
  ch_name :: string
  ch_description :: string
  ch_exercises :: "string list"
  ch_stake :: stake
  participants :: "participant list"

record member =
  m_userId :: user_id

record community =
  members :: "member list"

record notification_data =
  d_challengeId :: object_id
  d_communityId :: object_id
  stakeAmount :: int
  challengeName :: string
  challengeDescription :: string

text \<open>A notification has no \<^verbatim>\<open>_id\<close> until \<^verbatim>\<open>insertMany\<close> has stored it.\<close>

record notification =
  n_id :: "object_id option"
  n_userId :: user_id
  n_type :: string
  n_title :: string
  n_description :: string
  n_data :: notification_data
  n_read :: bool
  n_createdAt :: date

datatype socket_io = SocketIO

text \<open>
  What a handler does to the outside, in the order it does it: the bulk insert of the
  notifications and each \<^verbatim>\<open>io.to(socketId).emit(event, payload)\<close>.
\<close>

datatype effect =
    InsertMany "notification list"
  | Emit socket_id string notification

text \<open>
  The three collections (a document's \<^verbatim>\<open>_id\<close> is its key), the ObjectId generator, the
  two module variables \<^verbatim>\<open>io\<close> and \<^verbatim>\<open>userSockets\<close> (unset until
  \<^verbatim>\<open>initializeRouter\<close> runs), and the effects so far.
\<close>

record state =
  CommunityChallenge :: "object_id \<rightharpoonup> challenge"
  Community :: "object_id \<rightharpoonup> community"
  Notification :: "notification list"
  next_oid :: object_id
  io :: "socket_io option"
  userSockets :: "(user_id \<rightharpoonup> socket_id) option"
  effects :: "effect list"

datatype json =
    ChallengeJson object_id challenge
  | MessageJson string
  | ErrorJson string
  | MessageChallengeJson string object_id challenge

record response =
  status :: nat
  json :: json

section \<open>The handlers\<close>

text \<open>
  \<^verbatim>\<open>initializeRouter(socketIO, socketUsers)\<close> stores the socket server and the
  session registry it is given; both module variables are set together.
\<close>

definition initializeRouter :: "socket_io \<Rightarrow> (user_id \<rightharpoonup> socket_id) \<Rightarrow> state \<Rightarrow> state" where
  "initializeRouter socketIO socketUsers s =
     s\<lparr>io := Some socketIO, userSockets := Some socketUsers\<rparr>"

text \<open>\<^verbatim>\<open>challenge.save()\<close>: the document is written under its \<^verbatim>\<open>_id\<close>.\<close>

definition save :: "object_id \<Rightarrow> challenge \<Rightarrow> state \<Rightarrow> state" where
  "save challengeId challenge s =
     s\<lparr>CommunityChallenge := (CommunityChallenge s)(challengeId \<mapsto> challenge)\<rparr>"

fun assign_ids :: "object_id \<Rightarrow> notification list \<Rightarrow> notification list" where
  "assign_ids k [] = []"
| "assign_ids k (n # ns) = n\<lparr>n_id := Some k\<rparr> # assign_ids (Suc k) ns"

text \<open>\<^verbatim>\<open>Notification.insertMany(docs)\<close>: every document gets an \<^verbatim>\<open>_id\<close> and is stored;
  the stored documents are returned.\<close>

definition insertMany :: "notification list \<Rightarrow> state \<Rightarrow> notification list \<times> state" where
  "insertMany docs s =
     (let saved = assign_ids (next_oid s) docs
      in (saved,
          s\<lparr>Notification := Notification s @ saved,
            next_oid := next_oid s + length docs,
            effects := effects s @ [InsertMany saved]\<rparr>))"

definition emit :: "socket_id \<Rightarrow> string \<Rightarrow> notification \<Rightarrow> state \<Rightarrow> state" where
  "emit socketId event payload s = s\<lparr>effects := effects s @ [Emit socketId event payload]\<rparr>"

text \<open>
  \<^verbatim>\<open>savedNotifications.forEach(notification => { const socketId =
  userSockets[notification.userId.toString()]; if (socketId) io.to(socketId).emit(...) })\<close>.
  A missing key and the empty string are the falsy socket ids.
\<close>

fun forEach_emit :: "(user_id \<rightharpoonup> socket_id) \<Rightarrow> notification list \<Rightarrow> state \<Rightarrow> state" where
  "forEach_emit sockets [] s = s"
| "forEach_emit sockets (notification # rest) s =
     forEach_emit sockets rest
       (case sockets (n_userId notification) of
          None \<Rightarrow> s
        | Some socketId \<Rightarrow>
            if socketId = [] then s
            else emit socketId ''new_notification'' notification s)"

text \<open>
  The emits of \<^verbatim>\<open>forEach\<close> as a list, for stating what \<open>forEach_emit\<close> appends to the
  effects.
\<close>

fun emitted :: "(user_id \<rightharpoonup> socket_id) \<Rightarrow> notification list \<Rightarrow> effect list" where
  "emitted sockets [] = []"
| "emitted sockets (notification # rest) =
     (case sockets (n_userId notification) of
        None \<Rightarrow> []
      | Some socketId \<Rightarrow>
          if socketId = [] then [] else [Emit socketId ''new_notification'' notification])
     @ emitted sockets rest"

text \<open>Whether an effect is a push of a notification addressed to the given user.\<close>

fun push_for :: "user_id \<Rightarrow> effect \<Rightarrow> bool" where
  "push_for u (Emit socketId event payload) = (n_userId payload = u)"
| "push_for u (InsertMany docs) = False"

text \<open>Whether an effect is a push whose payload is the given stored notification.\<close>

fun carries :: "notification \<Rightarrow> effect \<Rightarrow> bool" where
  "carries n (Emit socketId event payload) = (payload = n)"
| "carries n (InsertMany docs) = False"

definition invite ::
  "object_id \<Rightarrow> object_id \<Rightarrow> string \<Rightarrow> string \<Rightarrow> stake \<Rightarrow> date \<Rightarrow> user_id \<Rightarrow> notification" where
  "invite savedId communityId name description stake createdAt userId =
     \<lparr>n_id = None,
      n_userId = userId,
      n_type = ''challenge_invite'',
      n_title = ''New Challenge: '' @ name,
      n_description =
        ''You'' @ [CHR 0x27] @ ''ve been invited to join '' @ [CHR 0x22] @ name @ [CHR 0x22]
          @ '' challenge'',
      n_data =
        \<lparr>d_challengeId = savedId,
         d_communityId = communityId,
         stakeAmount = amount stake,
         challengeName = name,
         challengeDescription = description\<rparr>,
      n_read = False,
      n_createdAt = createdAt\<rparr>"

text \<open>
  \<^verbatim>\<open>POST /create\<close>. \<open>clock i\<close> is what \<^verbatim>\<open>new Date()\<close> reads when the notification of
  the member at position \<open>i\<close> is built.
\<close>

definition create ::
  "object_id \<Rightarrow> string \<Rightarrow> string \<Rightarrow> string list \<Rightarrow> stake \<Rightarrow> (nat \<Rightarrow> date) \<Rightarrow> state
     \<Rightarrow> response \<times> state" where
  "create communityId name description exercises stake clock s =
     (let challenge =
            \<lparr>ch_communityId = communityId, ch_name = name, ch_description = description,
             ch_exercises = exercises, ch_stake = stake, participants = []\<rparr>;
          savedId = next_oid s;
          s1 = save savedId challenge (s\<lparr>next_oid := Suc savedId\<rparr>)
      in case Community s1 communityId of
           None \<Rightarrow> (\<lparr>status = 404, json = MessageJson ''Community not found''\<rparr>, s1)
         | Some community \<Rightarrow>
             (let memberIds = map m_userId (members community);
                  notifications =
                    map (\<lambda>(i, userId).
                           invite savedId communityId name description stake (clock i) userId)
                        (enumerate 0 memberIds);
                  (savedNotifications, s2) = insertMany notifications s1;
                  s3 = (case (io s2, userSockets s2) of
                          (Some server, Some sockets) \<Rightarrow> forEach_emit sockets savedNotifications s2
                        | _ \<Rightarrow> s2)
              in (\<lparr>status = 200, json = ChallengeJson savedId challenge\<rparr>, s3)))"

text \<open>
  Modelled from the spec: the participant schema of \<^verbatim>\<open>Model/communityChallenge\<close> is not
  among the sources; the spec's Join transition appends
  \<^verbatim>\<open>Participant{accepted:false, stakeSubmitted:false, completed:false}\<close> with no
  completion time.
\<close>

definition new_participant :: "user_id \<Rightarrow> participant" where
  "new_participant userId =
     \<lparr>p_userId = userId, accepted = False, stakeSubmitted = False, completed = False,
      completedAt = None\<rparr>"

text \<open>\<^verbatim>\<open>POST /join/:challengeId\<close>.\<close>

definition join :: "object_id \<Rightarrow> user_id \<Rightarrow> state \<Rightarrow> response \<times> state" where
  "join challengeId userId s =
     (case CommunityChallenge s challengeId of
        None \<Rightarrow> (\<lparr>status = 404, json = ErrorJson ''Challenge not found''\<rparr>, s)
      | Some challenge \<Rightarrow>
          (case find (\<lambda>p. p_userId p = userId) (participants challenge) of
             Some alreadyParticipant \<Rightarrow>
               (\<lparr>status = 400, json = ErrorJson ''User already joined''\<rparr>, s)
           | None \<Rightarrow>
               (let challenge' =
                      challenge\<lparr>participants := participants challenge @ [new_participant userId]\<rparr>
                in (\<lparr>status = 200,
                     json = MessageChallengeJson ''Joined challenge successfully''
                              challengeId challenge'\<rparr>,
                    save challengeId challenge' s))))"

text \<open>
  \<^verbatim>\<open>participants.find(...)\<close> returns a reference to the first matching entry, and
  the handler assigns to its fields: exactly that entry of the roster changes.
\<close>

fun update_first :: "('a \<Rightarrow> bool) \<Rightarrow> ('a \<Rightarrow> 'a) \<Rightarrow> 'a list \<Rightarrow> 'a list" where
  "update_first P f [] = []"
| "update_first P f (x # xs) = (if P x then f x # xs else x # update_first P f xs)"

text \<open>
  The message of the \<^verbatim>\<open>TypeError\<close> that reading \<^verbatim>\<open>challenge.participants\<close> raises
  when \<^verbatim>\<open>findById\<close> returned \<^verbatim>\<open>null\<close>.
\<close>

definition null_participants_message :: string where
  "null_participants_message =
     ''Cannot read properties of null (reading '' @ [CHR 0x27] @ ''participants''
       @ [CHR 0x27] @ '')''"

text \<open>
  \<^verbatim>\<open>POST /accept/:challengeId\<close>. The handler reads \<^verbatim>\<open>challenge.participants\<close> with no
  test of \<^verbatim>\<open>challenge\<close>: for an unknown id the read throws, and the \<^verbatim>\<open>catch\<close>
  answers 500.
\<close>

definition accept :: "object_id \<Rightarrow> user_id \<Rightarrow> state \<Rightarrow> response \<times> state" where
  "accept challengeId userId s =
     (case CommunityChallenge s challengeId of
        None \<Rightarrow> (\<lparr>status = 500, json = ErrorJson null_participants_message\<rparr>, s)
      | Some challenge \<Rightarrow>
          (case find (\<lambda>p. p_userId p = userId) (participants challenge) of
             None \<Rightarrow> (\<lparr>status = 404, json = ErrorJson ''User not in participant list''\<rparr>, s)
           | Some participant \<Rightarrow>
               (let challenge' =
                      challenge\<lparr>participants :=
                        update_first (\<lambda>p. p_userId p = userId)
                          (\<lambda>p. p\<lparr>accepted := True, stakeSubmitted := True\<rparr>)
                          (participants challenge)\<rparr>
                in (\<lparr>status = 200,
                     json = MessageChallengeJson ''Challenge accepted'' challengeId challenge'\<rparr>,
                    save challengeId challenge' s))))"

text \<open>\<^verbatim>\<open>POST /complete/:challengeId\<close>; \<open>now\<close> is what \<^verbatim>\<open>new Date()\<close> reads.\<close>

definition complete :: "object_id \<Rightarrow> user_id \<Rightarrow> date \<Rightarrow> state \<Rightarrow> response \<times> state" where
  "complete challengeId userId now s =
     (case CommunityChallenge s challengeId of
        None \<Rightarrow> (\<lparr>status = 500, json = ErrorJson null_participants_message\<rparr>, s)
      | Some challenge \<Rightarrow>
          (case find (\<lambda>p. p_userId p = userId) (participants challenge) of
             None \<Rightarrow> (\<lparr>status = 404, json = ErrorJson ''User not in participant list''\<rparr>, s)
           | Some participant \<Rightarrow>
               (let challenge' =
                      challenge\<lparr>participants :=
                        update_first (\<lambda>p. p_userId p = userId)
                          (\<lambda>p. p\<lparr>completed := True, completedAt := Some now\<rparr>)
                          (participants challenge)\<rparr>
                in (\<lparr>status = 200,
                     json = MessageChallengeJson ''Challenge marked as completed''
                              challengeId challenge'\<rparr>,
                    save challengeId challenge' s))))"

section \<open>A concrete scenario\<close>

text \<open>
  The scenario of the specification: community 1 has the members u1, u2, u3, of whom only
  u2 holds a live socket; challenge 100 has the roster u1 (joined) and u2 (joined).
\<close>

definition demo_community :: community where
  "demo_community =
     \<lparr>members = [\<lparr>m_userId = ''u1''\<rparr>, \<lparr>m_userId = ''u2''\<rparr>, \<lparr>m_userId = ''u3''\<rparr>]\<rparr>"

definition demo_challenge :: challenge where
  "demo_challenge =
     \<lparr>ch_communityId = 1, ch_name = ''Pushups'', ch_description = ''Daily pushups'',
      ch_exercises = [''pushup''], ch_stake = \<lparr>amount = 10\<rparr>,
      participants = [new_participant ''u1'', new_participant ''u2'']\<rparr>"

text \<open>The store before \<^verbatim>\<open>initializeRouter\<close> has run.\<close>

definition demo_uninitialized :: state where
  "demo_uninitialized =
     \<lparr>CommunityChallenge = [100 \<mapsto> demo_challenge],
      Community = [1 \<mapsto> demo_community],
      Notification = [],
      next_oid = 200,
      io = None,
      userSockets = None,
      effects = []\<rparr>"

definition demo_state :: state where
  "demo_state = initializeRouter SocketIO [''u2'' \<mapsto> ''socket2''] demo_uninitialized"

section \<open>Auxiliary facts\<close>

lemma demo_state_eq:
  "demo_state =
     \<lparr>CommunityChallenge = [100 \<mapsto> demo_challenge],
      Community = [1 \<mapsto> demo_community],
      Notification = [],
      next_oid = 200,
      io = Some SocketIO,
      userSockets = Some [''u2'' \<mapsto> ''socket2''],
      effects = []\<rparr>"
  by (simp add: demo_state_def initializeRouter_def demo_uninitialized_def)

lemma find_update_first:
  "find P xs = Some p \<Longrightarrow>
     \<exists>i<length xs. xs ! i = p \<and> P p \<and> (\<forall>j<i. \<not> P (xs ! j)) \<and> update_first P f xs = xs[i := f p]"
proof (induction xs)
  case Nil
  then show ?case by simp
next
  case (Cons x xs)
  show ?case
  proof (cases "P x")
    case True
    with Cons.prems have "x = p" by simp
    with True show ?thesis by (intro exI[of _ 0]) simp
  next
    case False
    with Cons.prems have "find P xs = Some p" by simp
    from Cons.IH[OF this] obtain i where i: "i < length xs" "xs ! i = p" "P p"
      "\<forall>j<i. \<not> P (xs ! j)" "update_first P f xs = xs[i := f p]" by blast
    have "\<forall>j<Suc i. \<not> P ((x # xs) ! j)"
      using False i(4) by (auto simp: less_Suc_eq_0_disj)
    with i False show ?thesis by (intro exI[of _ "Suc i"]) simp
  qed
qed

lemma find_userId_None: "find (\<lambda>p. p_userId p = u) ps = None \<longleftrightarrow> u \<notin> p_userId ` set ps"
  by (auto simp: find_None_iff)

lemma find_userId_Some: "u \<in> p_userId ` set ps \<Longrightarrow> \<exists>p. find (\<lambda>p. p_userId p = u) ps = Some p"
  by (cases "find (\<lambda>p. p_userId p = u) ps") (auto simp: find_None_iff)

lemma find_after_update_first:
  "find P xs = Some p \<Longrightarrow> P (f p) \<Longrightarrow> find P (update_first P f xs) = Some (f p)"
  by (induction xs) (auto split: if_splits)

lemma update_first_idem:
  "(\<And>x. P x \<Longrightarrow> P (f x) \<and> f (f x) = f x) \<Longrightarrow>
     update_first P f (update_first P f xs) = update_first P f xs"
  by (induction xs) auto

lemma forEach_emit_effects:
  "forEach_emit sockets ns s = s\<lparr>effects := effects s @ emitted sockets ns\<rparr>"
  by (induction ns arbitrary: s) (auto simp: emit_def split: option.splits)

lemma length_assign_ids: "length (assign_ids k ns) = length ns"
  by (induction ns arbitrary: k) auto

lemma map_assign_ids:
  "(\<And>n j. f (n\<lparr>n_id := Some j\<rparr>) = f n) \<Longrightarrow> map f (assign_ids k ns) = map f ns"
  by (induction ns arbitrary: k) auto

lemma ids_assign_ids: "map n_id (assign_ids k ns) = map Some [k..<k + length ns]"
proof (induction ns arbitrary: k)
  case Nil
  then show ?case by simp
next
  case (Cons n ns)
  have "[k..<k + length (n # ns)] = k # [Suc k..<Suc k + length ns]"
    by (simp add: upt_rec)
  with Cons.IH[of "Suc k"] show ?case by simp
qed

lemma set_assign_ids:
  "m \<in> set (assign_ids k ns) \<Longrightarrow> \<exists>n\<in>set ns. \<exists>j. m = n\<lparr>n_id := Some j\<rparr>"
  by (induction ns arbitrary: k) auto

lemma map_invite_userId:
  "map n_userId (map (\<lambda>(i, u). invite a b c d e (clock i) u) (enumerate j ids)) = ids"
  by (induction ids arbitrary: j) (auto simp: invite_def)

lemma set_invites:
  "n \<in> set (map (\<lambda>(i, u). invite a b c d e (clock i) u) (enumerate j ids)) \<Longrightarrow>
     \<exists>t u. n = invite a b c d e t u"
  by (induction ids arbitrary: j) auto

lemma emitted_not_for:
  "u \<notin> n_userId ` set ns \<Longrightarrow> filter (push_for u) (emitted sockets ns) = []"
  by (induction ns) (auto split: option.splits)

lemma emitted_for:
  "distinct (map n_userId ns) \<Longrightarrow> n \<in> set ns \<Longrightarrow>
     filter (push_for (n_userId n)) (emitted sockets ns) = emitted sockets [n]"
proof (induction ns)
  case Nil
  then show ?case by simp
next
  case (Cons x xs)
  show ?case
  proof (cases "x = n")
    case True
    with Cons.prems have "n_userId n \<notin> n_userId ` set xs" by simp
    then have "filter (push_for (n_userId n)) (emitted sockets xs) = []"
      by (rule emitted_not_for)
    with True show ?thesis by (simp split: option.splits)
  next
    case False
    with Cons.prems have n: "n \<in> set xs" and d: "distinct (map n_userId xs)"
      and ne: "n_userId x \<noteq> n_userId n" by auto
    from Cons.IH[OF d n] ne show ?thesis by (simp split: option.splits)
  qed
qed

lemma set_emitted:
  "e \<in> set (emitted sockets ns) \<Longrightarrow>
     \<exists>n\<in>set ns. \<exists>h. sockets (n_userId n) = Some h \<and> h \<noteq> [] \<and> e = Emit h ''new_notification'' n"
  by (induction ns) (auto split: option.splits if_splits)

lemma emitted_not_carried:
  "n \<notin> set ns \<Longrightarrow> filter (carries n) (emitted sockets ns) = []"
  by (induction ns) (auto split: option.splits)

lemma emitted_carried:
  "distinct ns \<Longrightarrow> n \<in> set ns \<Longrightarrow>
     filter (carries n) (emitted sockets ns) = emitted sockets [n]"
proof (induction ns)
  case Nil
  then show ?case by simp
next
  case (Cons x xs)
  show ?case
  proof (cases "x = n")
    case True
    with Cons.prems have "n \<notin> set xs" by simp
    then have "filter (carries n) (emitted sockets xs) = []"
      by (rule emitted_not_carried)
    with True show ?thesis by (simp split: option.splits)
  next
    case False
    with Cons.prems have n: "n \<in> set xs" and d: "distinct xs" by auto
    from Cons.IH[OF d n] False show ?thesis by (simp split: option.splits)
  qed
qed

lemma create_found:
  assumes "Community s communityId = Some community"
  shows "create communityId name description exercises stake clock s =
    (\<lparr>status = 200,
      json = ChallengeJson (next_oid s)
        \<lparr>ch_communityId = communityId, ch_name = name, ch_description = description,
         ch_exercises = exercises, ch_stake = stake, participants = []\<rparr>\<rparr>,
     s\<lparr>CommunityChallenge := (CommunityChallenge s)(next_oid s \<mapsto>
          \<lparr>ch_communityId = communityId, ch_name = name, ch_description = description,
           ch_exercises = exercises, ch_stake = stake, participants = []\<rparr>),
       Notification := Notification s @
         assign_ids (Suc (next_oid s))
           (map (\<lambda>(i, u). invite (next_oid s) communityId name description stake (clock i) u)
              (enumerate 0 (map m_userId (members community)))),
       next_oid := Suc (next_oid s) + length (members community),
       effects := effects s @
         InsertMany (assign_ids (Suc (next_oid s))
           (map (\<lambda>(i, u). invite (next_oid s) communityId name description stake (clock i) u)
              (enumerate 0 (map m_userId (members community)))))
         # (case (io s, userSockets s) of
              (Some server, Some sockets) \<Rightarrow>
                emitted sockets (assign_ids (Suc (next_oid s))
                  (map (\<lambda>(i, u). invite (next_oid s) communityId name description stake (clock i) u)
                     (enumerate 0 (map m_userId (members community)))))
            | _ \<Rightarrow> [])\<rparr>)"
  using assms
  by (simp add: create_def save_def insertMany_def Let_def forEach_emit_effects
      split: option.splits)

lemma create_absent:
  assumes "Community s communityId = None"
  shows "create communityId name description exercises stake clock s =
    (\<lparr>status = 404, json = MessageJson ''Community not found''\<rparr>,
     s\<lparr>CommunityChallenge := (CommunityChallenge s)(next_oid s \<mapsto>
          \<lparr>ch_communityId = communityId, ch_name = name, ch_description = description,
           ch_exercises = exercises, ch_stake = stake, participants = []\<rparr>),
       next_oid := Suc (next_oid s)\<rparr>)"
  using assms by (simp add: create_def save_def Let_def)

lemma saved_invites:
  fixes ids :: "user_id list" and k a b :: object_id and c d :: string and e :: stake
    and clock :: "nat \<Rightarrow> date"
  defines "saved \<equiv> assign_ids k
     (map (\<lambda>(i, u). invite a b c d e (clock i) u) (enumerate 0 ids))"
  shows "length saved = length ids"
    and "map n_userId saved = ids"
    and "map n_id saved = map Some [k..<k + length ids]"
    and "n \<in> set saved \<Longrightarrow>
           n_type n = ''challenge_invite'' \<and> n_read n = False
         \<and> n_title n = ''New Challenge: '' @ c
         \<and> n_description n =
             ''You'' @ [CHR 0x27] @ ''ve been invited to join '' @ [CHR 0x22] @ c @ [CHR 0x22]
               @ '' challenge''
         \<and> n_data n =
             \<lparr>d_challengeId = a, d_communityId = b, stakeAmount = amount e,
              challengeName = c, challengeDescription = d\<rparr>
         \<and> n_id n \<noteq> None"
proof -
  show "length saved = length ids"
    by (simp add: saved_def length_assign_ids)
  have "map n_userId saved =
          map n_userId (map (\<lambda>(i, u). invite a b c d e (clock i) u) (enumerate 0 ids))"
    unfolding saved_def by (rule map_assign_ids) simp
  then show "map n_userId saved = ids"
    by (simp only: map_invite_userId)
  show "map n_id saved = map Some [k..<k + length ids]"
    by (simp add: saved_def ids_assign_ids)
  assume "n \<in> set saved"
  then obtain m j where m: "m \<in> set (map (\<lambda>(i, u). invite a b c d e (clock i) u) (enumerate 0 ids))"
    and n: "n = m\<lparr>n_id := Some j\<rparr>"
    unfolding saved_def using set_assign_ids by blast
  from set_invites[OF m] obtain t u where "m = invite a b c d e t u" by blast
  with n show "n_type n = ''challenge_invite'' \<and> n_read n = False
         \<and> n_title n = ''New Challenge: '' @ c
         \<and> n_description n =
             ''You'' @ [CHR 0x27] @ ''ve been invited to join '' @ [CHR 0x22] @ c @ [CHR 0x22]
               @ '' challenge''
         \<and> n_data n =
             \<lparr>d_challengeId = a, d_communityId = b, stakeAmount = amount e,
              challengeName = c, challengeDescription = d\<rparr>
         \<and> n_id n \<noteq> None"
    by (simp add: invite_def)
qed

lemma unknown_challenge:
  assumes "CommunityChallenge s challengeId = None"
  shows "join challengeId userId s =
           (\<lparr>status = 404, json = ErrorJson ''Challenge not found''\<rparr>, s)"
    and "accept challengeId userId s =
           (\<lparr>status = 500, json = ErrorJson null_participants_message\<rparr>, s)"
    and "complete challengeId userId now s =
           (\<lparr>status = 500, json = ErrorJson null_participants_message\<rparr>, s)"
  using assms by (simp_all add: join_def accept_def complete_def)

lemma demo_create_effects:
  "\<exists>saved n. effects (snd (create 1 ''Pushups'' ''Daily pushups'' [''pushup'']
        \<lparr>amount = 10\<rparr> (\<lambda>i. 50) demo_state))
      = [InsertMany saved, Emit ''socket2'' ''new_notification'' n]"
proof -
  have h: "Community demo_state 1 = Some demo_community"
    by (simp add: demo_state_eq)
  show ?thesis
    unfolding create_found[OF h]
    by (simp add: demo_state_eq demo_community_def enumerate_eq_zip upt_rec invite_def)
qed

section \<open>Creating a challenge and inviting the community\<close>

text \<open>
  Claim C1: a create request on a stored community with \<open>N\<close> member entries appends exactly
  \<open>N\<close> notifications to the Notification collection, the one at position \<open>k\<close> addressed
  to the member at position \<open>k\<close> (the creator is not left out), each with a fresh
  \<^verbatim>\<open>_id\<close>, type \<^verbatim>\<open>challenge_invite\<close>, \<^verbatim>\<open>read: false\<close>, and the same title, description
  and payload (id of the challenge just saved, community id, stake amount, challenge name
  and description). The recipients are pairwise distinct when the members are.
\<close>

theorem create_one_invite_per_member:
  assumes "Community s communityId = Some community"
  shows "\<exists>saved.
      Notification (snd (create communityId name description exercises stake clock s))
        = Notification s @ saved
    \<and> length saved = length (members community)
    \<and> map n_userId saved = map m_userId (members community)
    \<and> map n_id saved =
        map Some [Suc (next_oid s)..<Suc (next_oid s) + length (members community)]
    \<and> (\<forall>n\<in>set saved.
          n_type n = ''challenge_invite'' \<and> n_read n = False
        \<and> n_title n = ''New Challenge: '' @ name
        \<and> n_description n =
            ''You'' @ [CHR 0x27] @ ''ve been invited to join '' @ [CHR 0x22] @ name
              @ [CHR 0x22] @ '' challenge''
        \<and> n_data n =
            \<lparr>d_challengeId = next_oid s, d_communityId = communityId,
             stakeAmount = amount stake, challengeName = name,
             challengeDescription = description\<rparr>)
    \<and> (distinct (map m_userId (members community)) \<longrightarrow> distinct (map n_userId saved))"
proof -
  let ?ids = "map m_userId (members community)"
  let ?saved = "assign_ids (Suc (next_oid s))
     (map (\<lambda>(i, u). invite (next_oid s) communityId name description stake (clock i) u)
        (enumerate 0 ?ids))"
  have stored: "Notification (snd (create communityId name description exercises stake clock s))
        = Notification s @ ?saved"
    by (simp add: create_found[OF assms])
  have len: "length ?saved = length (members community)"
    using saved_invites(1)[of "Suc (next_oid s)" _ _ _ _ _ clock ?ids] by simp
  have users: "map n_userId ?saved = ?ids"
    by (rule saved_invites(2))
  have oids: "map n_id ?saved =
        map Some [Suc (next_oid s)..<Suc (next_oid s) + length (members community)]"
    using saved_invites(3)[of "Suc (next_oid s)" _ _ _ _ _ clock ?ids] by simp
  have fields: "\<forall>n\<in>set ?saved.
          n_type n = ''challenge_invite'' \<and> n_read n = False
        \<and> n_title n = ''New Challenge: '' @ name
        \<and> n_description n =
            ''You'' @ [CHR 0x27] @ ''ve been invited to join '' @ [CHR 0x22] @ name
              @ [CHR 0x22] @ '' challenge''
        \<and> n_data n =
            \<lparr>d_challengeId = next_oid s, d_communityId = communityId,
             stakeAmount = amount stake, challengeName = name,
             challengeDescription = description\<rparr>"
    using saved_invites(4) by blast
  from users have "distinct ?ids \<longrightarrow> distinct (map n_userId ?saved)"
    by (simp only: simp_thms)
  with stored len users oids fields show ?thesis by blast
qed

theorem create_one_invite_per_member_witness:
  "Community demo_state 1 = Some demo_community
   \<and> distinct (map m_userId (members demo_community))
   \<and> length (Notification (snd (create 1 ''Pushups'' ''Daily pushups'' [''pushup'']
        \<lparr>amount = 10\<rparr> (\<lambda>i. 50) demo_state))) = 3
   \<and> map n_userId (Notification (snd (create 1 ''Pushups'' ''Daily pushups'' [''pushup'']
        \<lparr>amount = 10\<rparr> (\<lambda>i. 50) demo_state))) = [''u1'', ''u2'', ''u3'']
   \<and> distinct (map n_userId (Notification (snd (create 1 ''Pushups'' ''Daily pushups''
        [''pushup''] \<lparr>amount = 10\<rparr> (\<lambda>i. 50) demo_state))))
   \<and> list_all (\<lambda>n. n_type n = ''challenge_invite'' \<and> n_read n = False
          \<and> n_title n = ''New Challenge: Pushups'' \<and> stakeAmount (n_data n) = 10
          \<and> d_challengeId (n_data n) = 200)
        (Notification (snd (create 1 ''Pushups'' ''Daily pushups''
        [''pushup''] \<lparr>amount = 10\<rparr> (\<lambda>i. 50) demo_state)))"
proof -
  have h: "Community demo_state 1 = Some demo_community"
    by (simp add: demo_state_eq)
  have d: "distinct (map m_userId (members demo_community))"
    by (simp add: demo_community_def)
  have e: "Notification demo_state = []" "next_oid demo_state = 200"
    by (simp_all add: demo_state_eq)
  have m: "map m_userId (members demo_community) = [''u1'', ''u2'', ''u3'']"
    "length (members demo_community) = 3"
    by (simp_all add: demo_community_def)
  from create_one_invite_per_member[OF h, of "''Pushups''" "''Daily pushups''" "[''pushup'']"
      "\<lparr>amount = 10\<rparr>" "\<lambda>i. 50"]
  show ?thesis
    using h d
    by (auto simp: e m list_all_iff)
qed

text \<open>
  Claim C2: create on a stored community, with the router initialised (\<^verbatim>\<open>io\<close> and
  \<^verbatim>\<open>userSockets\<close> set, as \<^verbatim>\<open>initializeRouter\<close> leaves them). The recipients of the
  stored notifications of this request are the members, position by position. For every
  such notification \<open>n\<close>, which carries its \<^verbatim>\<open>_id\<close>: if \<^verbatim>\<open>userSockets\<close> holds a
  non-empty socket id \<open>h\<close> for its recipient, the pushes with payload \<open>n\<close> are exactly
  one, \<^verbatim>\<open>new_notification\<close> to \<open>h\<close>; if it holds none, no push has payload \<open>n\<close>; and
  when the members are pairwise distinct, the pushes addressed to the recipient of \<open>n\<close>
  are those with payload \<open>n\<close> and no others. Every push goes to the socket id registered
  for its recipient and carries a stored notification of this request.
\<close>

theorem registered_recipient_one_push:
  assumes "Community s communityId = Some community"
    and "io s = Some server"
    and "userSockets s = Some sockets"
  shows "\<exists>saved pushes.
      Notification (snd (create communityId name description exercises stake clock s))
        = Notification s @ saved
    \<and> effects (snd (create communityId name description exercises stake clock s))
        = effects s @ InsertMany saved # pushes
    \<and> map n_userId saved = map m_userId (members community)
    \<and> (\<forall>n\<in>set saved.
          n_id n \<noteq> None
        \<and> (\<forall>h. sockets (n_userId n) = Some h \<and> h \<noteq> [] \<longrightarrow>
              filter (carries n) pushes = [Emit h ''new_notification'' n])
        \<and> (sockets (n_userId n) = None \<longrightarrow> filter (carries n) pushes = [])
        \<and> (distinct (map m_userId (members community)) \<longrightarrow>
              filter (push_for (n_userId n)) pushes = filter (carries n) pushes))
    \<and> (\<forall>e\<in>set pushes. \<exists>h p. e = Emit h ''new_notification'' p \<and> p \<in> set saved
          \<and> sockets (n_userId p) = Some h)"
proof -
  let ?ids = "map m_userId (members community)"
  let ?saved = "assign_ids (Suc (next_oid s))
     (map (\<lambda>(i, u). invite (next_oid s) communityId name description stake (clock i) u)
        (enumerate 0 ?ids))"
  let ?s' = "snd (create communityId name description exercises stake clock s)"
  have stored: "Notification ?s' = Notification s @ ?saved"
    by (simp add: create_found[OF assms(1)])
  have eff: "effects ?s' = effects s @ InsertMany ?saved # emitted sockets ?saved"
    using assms(2,3) by (simp add: create_found[OF assms(1)])
  have users: "map n_userId ?saved = ?ids"
    by (rule saved_invites(2))
  have "distinct (map n_id ?saved)"
    by (simp only: saved_invites(3)) (simp add: distinct_map)
  then have dist: "distinct ?saved"
    by (simp add: distinct_map)
  have each: "n_id n \<noteq> None
        \<and> (\<forall>h. sockets (n_userId n) = Some h \<and> h \<noteq> [] \<longrightarrow>
              filter (carries n) (emitted sockets ?saved) = [Emit h ''new_notification'' n])
        \<and> (sockets (n_userId n) = None \<longrightarrow> filter (carries n) (emitted sockets ?saved) = [])
        \<and> (distinct ?ids \<longrightarrow>
              filter (push_for (n_userId n)) (emitted sockets ?saved)
                = filter (carries n) (emitted sockets ?saved))"
    if n: "n \<in> set ?saved" for n
  proof -
    from saved_invites(4)[OF n] have oid: "n_id n \<noteq> None" by (elim conjE)
    have one: "filter (carries n) (emitted sockets ?saved) = emitted sockets [n]"
      using dist n by (rule emitted_carried)
    have reg: "\<forall>h. sockets (n_userId n) = Some h \<and> h \<noteq> [] \<longrightarrow>
              filter (carries n) (emitted sockets ?saved) = [Emit h ''new_notification'' n]"
      unfolding one by simp
    have unreg: "sockets (n_userId n) = None \<longrightarrow>
              filter (carries n) (emitted sockets ?saved) = []"
      unfolding one by simp
    have addressed: "distinct ?ids \<longrightarrow>
              filter (push_for (n_userId n)) (emitted sockets ?saved)
                = filter (carries n) (emitted sockets ?saved)"
    proof
      assume "distinct ?ids"
      then have "distinct (map n_userId ?saved)" by (simp only: users)
      from emitted_for[OF this n, of sockets] show
        "filter (push_for (n_userId n)) (emitted sockets ?saved)
           = filter (carries n) (emitted sockets ?saved)"
        by (simp only: one)
    qed
    from oid reg unreg addressed show ?thesis by (intro conjI)
  qed
  have all: "\<forall>e\<in>set (emitted sockets ?saved). \<exists>h p. e = Emit h ''new_notification'' p
      \<and> p \<in> set ?saved \<and> sockets (n_userId p) = Some h"
  proof
    fix e assume "e \<in> set (emitted sockets ?saved)"
    from set_emitted[OF this]
    show "\<exists>h p. e = Emit h ''new_notification'' p
      \<and> p \<in> set ?saved \<and> sockets (n_userId p) = Some h" by blast
  qed
  from each have each': "\<forall>n\<in>set ?saved.
          n_id n \<noteq> None
        \<and> (\<forall>h. sockets (n_userId n) = Some h \<and> h \<noteq> [] \<longrightarrow>
              filter (carries n) (emitted sockets ?saved) = [Emit h ''new_notification'' n])
        \<and> (sockets (n_userId n) = None \<longrightarrow> filter (carries n) (emitted sockets ?saved) = [])
        \<and> (distinct ?ids \<longrightarrow>
              filter (push_for (n_userId n)) (emitted sockets ?saved)
                = filter (carries n) (emitted sockets ?saved))"
    by (rule ballI)
  show ?thesis
    apply (rule exI[of _ ?saved])
    apply (rule exI[of _ "emitted sockets ?saved"])
    using stored eff users each' all apply (intro conjI)
        apply assumption+
    done
qed

theorem registered_recipient_one_push_witness:
  "Community demo_state 1 = Some demo_community
   \<and> io demo_state = Some SocketIO
   \<and> userSockets demo_state = Some [''u2'' \<mapsto> ''socket2'']
   \<and> distinct (map m_userId (members demo_community))
   \<and> (\<exists>saved pushes n2 n1.
        Notification (snd (create 1 ''Pushups'' ''Daily pushups'' [''pushup'']
          \<lparr>amount = 10\<rparr> (\<lambda>i. 50) demo_state)) = saved
      \<and> effects (snd (create 1 ''Pushups'' ''Daily pushups'' [''pushup'']
          \<lparr>amount = 10\<rparr> (\<lambda>i. 50) demo_state)) = InsertMany saved # pushes
      \<and> n2 \<in> set saved \<and> n_userId n2 = ''u2'' \<and> n_id n2 \<noteq> None
      \<and> filter (carries n2) pushes = [Emit ''socket2'' ''new_notification'' n2]
      \<and> filter (push_for ''u2'') pushes = [Emit ''socket2'' ''new_notification'' n2]
      \<and> n1 \<in> set saved \<and> n_userId n1 = ''u1'' \<and> n_id n1 \<noteq> None
      \<and> filter (carries n1) pushes = []
      \<and> filter (push_for ''u1'') pushes = [])"
proof -
  let ?s' = "snd (create 1 ''Pushups'' ''Daily pushups'' [''pushup'']
          \<lparr>amount = 10\<rparr> (\<lambda>i. 50) demo_state)"
  have h1: "Community demo_state 1 = Some demo_community"
    and h2: "io demo_state = Some SocketIO"
    and h3: "userSockets demo_state = Some [''u2'' \<mapsto> ''socket2'']"
    by (simp_all add: demo_state_eq)
  have h4: "distinct (map m_userId (members demo_community))"
    and m: "map m_userId (members demo_community) = [''u1'', ''u2'', ''u3'']"
    by (simp_all add: demo_community_def)
  have e: "Notification demo_state = []" "effects demo_state = []"
    by (simp_all add: demo_state_eq)
  from registered_recipient_one_push[OF h1 h2 h3, of "''Pushups''" "''Daily pushups''"
      "[''pushup'']" "\<lparr>amount = 10\<rparr>" "\<lambda>i. 50"]
  obtain saved pushes where stored: "Notification ?s' = saved"
    and eff: "effects ?s' = InsertMany saved # pushes"
    and users: "map n_userId saved = [''u1'', ''u2'', ''u3'']"
    and each: "\<forall>n\<in>set saved.
          n_id n \<noteq> None
        \<and> (\<forall>h. [''u2'' \<mapsto> ''socket2''] (n_userId n) = Some h \<and> h \<noteq> [] \<longrightarrow>
              filter (carries n) pushes = [Emit h ''new_notification'' n])
        \<and> ([''u2'' \<mapsto> ''socket2''] (n_userId n) = None \<longrightarrow> filter (carries n) pushes = [])
        \<and> (distinct (map m_userId (members demo_community)) \<longrightarrow>
              filter (push_for (n_userId n)) pushes = filter (carries n) pushes)"
    unfolding e m append_Nil by (elim exE conjE)
  have "''u2'' \<in> set (map n_userId saved)" "''u1'' \<in> set (map n_userId saved)"
    by (simp_all only: users) simp_all
  then obtain n2 n1 where n2: "n2 \<in> set saved" "n_userId n2 = ''u2''"
    and n1: "n1 \<in> set saved" "n_userId n1 = ''u1''"
    by (auto simp only: set_map)
  from each n2(1) h4 have f2: "n_id n2 \<noteq> None"
    "\<forall>h. [''u2'' \<mapsto> ''socket2''] (n_userId n2) = Some h \<and> h \<noteq> [] \<longrightarrow>
              filter (carries n2) pushes = [Emit h ''new_notification'' n2]"
    "filter (push_for (n_userId n2)) pushes = filter (carries n2) pushes"
    by blast+
  from each n1(1) h4 have f1: "n_id n1 \<noteq> None"
    "[''u2'' \<mapsto> ''socket2''] (n_userId n1) = None \<longrightarrow> filter (carries n1) pushes = []"
    "filter (push_for (n_userId n1)) pushes = filter (carries n1) pushes"
    by blast+
  from f2(2) have c2: "filter (carries n2) pushes = [Emit ''socket2'' ''new_notification'' n2]"
    by (simp add: n2(2))
  from f1(2) have c1: "filter (carries n1) pushes = []"
    by (simp add: n1(2))
  from f2(3) c2 have p2: "filter (push_for ''u2'') pushes = [Emit ''socket2'' ''new_notification'' n2]"
    by (simp only: n2(2))
  from f1(3) c1 have p1: "filter (push_for ''u1'') pushes = []"
    by (simp only: n1(2))
  have "\<exists>saved pushes n2 n1.
        Notification ?s' = saved \<and> effects ?s' = InsertMany saved # pushes
      \<and> n2 \<in> set saved \<and> n_userId n2 = ''u2'' \<and> n_id n2 \<noteq> None
      \<and> filter (carries n2) pushes = [Emit ''socket2'' ''new_notification'' n2]
      \<and> filter (push_for ''u2'') pushes = [Emit ''socket2'' ''new_notification'' n2]
      \<and> n1 \<in> set saved \<and> n_userId n1 = ''u1'' \<and> n_id n1 \<noteq> None
      \<and> filter (carries n1) pushes = []
      \<and> filter (push_for ''u1'') pushes = []"
    using stored eff n2 f2(1) c2 p2 n1 f1(1) c1 p1
    by (intro exI[of _ saved] exI[of _ pushes] exI[of _ n2] exI[of _ n1] conjI)
  with h1 h2 h3 h4 show ?thesis by (intro conjI)
qed

text \<open>
  Claim C3: the effects of create extend those before it, and every push among the new
  effects comes after a bulk insert among them that holds the pushed notification; the
  pushed notification has its \<^verbatim>\<open>_id\<close> and is in the Notification collection. Whenever the
  community is stored, every member has a stored notification of this request, whatever
  \<^verbatim>\<open>io\<close> and \<^verbatim>\<open>userSockets\<close> hold.
\<close>

theorem persisted_before_pushed:
  "take (length (effects s))
     (effects (snd (create communityId name description exercises stake clock s))) = effects s
   \<and> (\<forall>i h event p.
        length (effects s) \<le> i
      \<and> i < length (effects (snd (create communityId name description exercises stake clock s)))
      \<and> effects (snd (create communityId name description exercises stake clock s)) ! i
          = Emit h event p
      \<longrightarrow> (\<exists>j saved.
             length (effects s) \<le> j \<and> j < i
           \<and> effects (snd (create communityId name description exercises stake clock s)) ! j
               = InsertMany saved
           \<and> p \<in> set saved \<and> n_id p \<noteq> None
           \<and> p \<in> set (Notification
                 (snd (create communityId name description exercises stake clock s)))))
   \<and> (\<forall>community. Community s communityId = Some community \<longrightarrow>
        (\<exists>saved.
           Notification (snd (create communityId name description exercises stake clock s))
             = Notification s @ saved
         \<and> (\<forall>m\<in>set (members community). \<exists>n\<in>set saved. n_userId n = m_userId m)))"
proof (cases "Community s communityId")
  case None
  from create_absent[OF None]
  have "effects (snd (create communityId name description exercises stake clock s)) = effects s"
    by simp
  with None show ?thesis by auto
next
  case (Some community)
  let ?s' = "snd (create communityId name description exercises stake clock s)"
  let ?ids = "map m_userId (members community)"
  let ?saved = "assign_ids (Suc (next_oid s))
     (map (\<lambda>(i, u). invite (next_oid s) communityId name description stake (clock i) u)
        (enumerate 0 ?ids))"
  obtain pushes where eff: "effects ?s' = effects s @ InsertMany ?saved # pushes"
    and pushes: "\<forall>e\<in>set pushes. \<exists>h p. e = Emit h ''new_notification'' p \<and> p \<in> set ?saved"
  proof (cases "\<exists>server sockets. io s = Some server \<and> userSockets s = Some sockets")
    case True
    then obtain server sockets where "io s = Some server" "userSockets s = Some sockets"
      by blast
    then have "effects ?s' = effects s @ InsertMany ?saved # emitted sockets ?saved"
      by (simp add: create_found[OF Some])
    moreover have "\<forall>e\<in>set (emitted sockets ?saved).
        \<exists>h p. e = Emit h ''new_notification'' p \<and> p \<in> set ?saved"
      using set_emitted by blast
    ultimately show ?thesis using that by blast
  next
    case False
    then have "effects ?s' = effects s @ InsertMany ?saved # []"
      by (auto simp: create_found[OF Some] split: option.splits)
    then show ?thesis using that[of "[]"] by simp
  qed
  have stored: "Notification ?s' = Notification s @ ?saved"
    by (simp add: create_found[OF Some])
  have prefix: "take (length (effects s)) (effects ?s') = effects s"
    by (simp add: eff)
  have order: "\<exists>j saved. length (effects s) \<le> j \<and> j < i
           \<and> effects ?s' ! j = InsertMany saved
           \<and> p \<in> set saved \<and> n_id p \<noteq> None \<and> p \<in> set (Notification ?s')"
    if i: "length (effects s) \<le> i" "i < length (effects ?s')"
      and at: "effects ?s' ! i = Emit h event p" for i h event p
  proof -
    from i(1) obtain d where d: "i = length (effects s) + d"
      using le_Suc_ex by blast
    with at eff have "(InsertMany ?saved # pushes) ! d = Emit h event p"
      by (simp add: nth_append)
    then obtain d' where d': "d = Suc d'" by (cases d) auto
    with d i(2) eff have "d' < length pushes" by simp
    moreover from \<open>(InsertMany ?saved # pushes) ! d = Emit h event p\<close> d'
    have "pushes ! d' = Emit h event p" by simp
    ultimately have "Emit h event p \<in> set pushes" by (metis nth_mem)
    with pushes have p: "p \<in> set ?saved" by auto
    from saved_invites(4)[OF p] have "n_id p \<noteq> None" by blast
    moreover have "effects ?s' ! length (effects s) = InsertMany ?saved"
      by (simp add: eff)
    moreover have "length (effects s) < i" using d d' by simp
    ultimately show ?thesis using p stored by auto
  qed
  have users: "map n_userId ?saved = ?ids"
    by (rule saved_invites(2))
  have copies: "\<forall>m\<in>set (members community). \<exists>n\<in>set ?saved. n_userId n = m_userId m"
  proof
    fix m assume "m \<in> set (members community)"
    then have "m_userId m \<in> set (map n_userId ?saved)"
      by (simp only: users) simp
    then show "\<exists>n\<in>set ?saved. n_userId n = m_userId m" by auto
  qed
  from prefix order stored copies Some show ?thesis by auto
qed

theorem persisted_before_pushed_witness:
  "length (effects demo_state) \<le> 1
   \<and> 1 < length (effects (snd (create 1 ''Pushups'' ''Daily pushups'' [''pushup'']
        \<lparr>amount = 10\<rparr> (\<lambda>i. 50) demo_state)))
   \<and> Community demo_state 1 = Some demo_community
   \<and> (\<exists>h event p j saved.
        effects (snd (create 1 ''Pushups'' ''Daily pushups'' [''pushup'']
          \<lparr>amount = 10\<rparr> (\<lambda>i. 50) demo_state)) ! 1 = Emit h event p
      \<and> j < 1
      \<and> effects (snd (create 1 ''Pushups'' ''Daily pushups'' [''pushup'']
          \<lparr>amount = 10\<rparr> (\<lambda>i. 50) demo_state)) ! j = InsertMany saved
      \<and> p \<in> set saved \<and> n_id p \<noteq> None
      \<and> p \<in> set (Notification (snd (create 1 ''Pushups'' ''Daily pushups'' [''pushup'']
          \<lparr>amount = 10\<rparr> (\<lambda>i. 50) demo_state))))
   \<and> \<lparr>m_userId = ''u1''\<rparr> \<in> set (members demo_community)
   \<and> (\<exists>n. n \<in> set (Notification (snd (create 1 ''Pushups'' ''Daily pushups'' [''pushup'']
          \<lparr>amount = 10\<rparr> (\<lambda>i. 50) demo_state))) \<and> n_userId n = ''u1'')"
proof -
  let ?s' = "snd (create 1 ''Pushups'' ''Daily pushups'' [''pushup'']
        \<lparr>amount = 10\<rparr> (\<lambda>i. 50) demo_state)"
  have h: "Community demo_state 1 = Some demo_community"
    and e: "effects demo_state = []"
    by (simp_all add: demo_state_eq)
  from demo_create_effects obtain saved n
    where eff: "effects ?s' = [InsertMany saved, Emit ''socket2'' ''new_notification'' n]"
    by blast
  then have len: "1 < length (effects ?s')"
    and at: "effects ?s' ! 1 = Emit ''socket2'' ''new_notification'' n"
    by simp_all
  have le: "length (effects demo_state) \<le> 1"
    by (simp only: e list.size)
  note all = persisted_before_pushed[of demo_state 1 "''Pushups''" "''Daily pushups''"
      "[''pushup'']" "\<lparr>amount = 10\<rparr>" "\<lambda>i. 50"]
  from le len at
  have pre: "length (effects demo_state) \<le> 1 \<and> 1 < length (effects ?s')
      \<and> effects ?s' ! 1 = Emit ''socket2'' ''new_notification'' n"
    by (intro conjI)
  from all[THEN conjunct2, THEN conjunct1, THEN spec, THEN spec, THEN spec, THEN spec,
      THEN mp, OF pre]
  obtain j saved' where j: "j < 1" "effects ?s' ! j = InsertMany saved'"
    "n \<in> set saved'" "n_id n \<noteq> None" "n \<in> set (Notification ?s')"
    by (elim exE conjE)
  from at j have "\<exists>h event p j saved.
        effects ?s' ! 1 = Emit h event p \<and> j < 1
      \<and> effects ?s' ! j = InsertMany saved
      \<and> p \<in> set saved \<and> n_id p \<noteq> None \<and> p \<in> set (Notification ?s')"
    by (intro exI conjI)
  moreover have u1: "\<lparr>m_userId = ''u1''\<rparr> \<in> set (members demo_community)"
    by (simp add: demo_community_def)
  moreover have "\<exists>n. n \<in> set (Notification ?s') \<and> n_userId n = ''u1''"
  proof -
    from all[THEN conjunct2, THEN conjunct2, THEN spec, THEN mp, OF h]
    obtain saved' where "Notification ?s' = Notification demo_state @ saved'"
      and "\<forall>m\<in>set (members demo_community). \<exists>n\<in>set saved'. n_userId n = m_userId m"
      by (elim exE conjE)
    with u1 show ?thesis by fastforce
  qed
  ultimately show ?thesis using le len h by (intro conjI)
qed

section \<open>Joining, accepting and completing\<close>

text \<open>
  Claim C4 (all of join, accept and complete answer 404 ChallengeNotFound for an unknown
  challenge id, with no mutation). Evaluated at challenge id 7, which the scenario's store
  does not hold: join answers 404, but accept and complete answer 500, carrying the
  message of the \<^verbatim>\<open>TypeError\<close> raised by reading \<^verbatim>\<open>challenge.participants\<close> of
  \<^verbatim>\<open>null\<close>. The state is unchanged in all three.
\<close>

theorem accept_complete_unknown_challenge_500:
  "CommunityChallenge demo_state 7 = None
   \<and> join 7 ''u1'' demo_state =
       (\<lparr>status = 404, json = ErrorJson ''Challenge not found''\<rparr>, demo_state)
   \<and> accept 7 ''u1'' demo_state =
       (\<lparr>status = 500, json = ErrorJson null_participants_message\<rparr>, demo_state)
   \<and> complete 7 ''u1'' 5 demo_state =
       (\<lparr>status = 500, json = ErrorJson null_participants_message\<rparr>, demo_state)
   \<and> status (fst (accept 7 ''u1'' demo_state)) \<noteq> 404
   \<and> status (fst (complete 7 ''u1'' 5 demo_state)) \<noteq> 404"
proof -
  have none: "CommunityChallenge demo_state 7 = None"
    by (simp add: demo_state_eq)
  show ?thesis
    using none by (simp add: unknown_challenge)
qed

text \<open>
  Claim C5: for a stored challenge and a user identity already in its roster, join answers
  400 ``User already joined'' and returns the state it was given: no roster entry is added
  or modified.
\<close>

theorem join_duplicate_conflict:
  assumes "CommunityChallenge s challengeId = Some challenge"
    and "userId \<in> p_userId ` set (participants challenge)"
  shows "join challengeId userId s =
           (\<lparr>status = 400, json = ErrorJson ''User already joined''\<rparr>, s)"
proof -
  from assms(2) obtain p where "find (\<lambda>p. p_userId p = userId) (participants challenge) = Some p"
    using find_userId_Some by blast
  with assms(1) show ?thesis by (simp add: join_def)
qed

theorem join_duplicate_conflict_witness:
  "CommunityChallenge demo_state 100 = Some demo_challenge
   \<and> ''u1'' \<in> p_userId ` set (participants demo_challenge)
   \<and> join 100 ''u1'' demo_state =
       (\<lparr>status = 400, json = ErrorJson ''User already joined''\<rparr>, demo_state)"
proof -
  have h1: "CommunityChallenge demo_state 100 = Some demo_challenge"
    by (simp add: demo_state_eq)
  have h2: "''u1'' \<in> p_userId ` set (participants demo_challenge)"
    by (simp add: demo_challenge_def new_participant_def)
  from join_duplicate_conflict[OF h1 h2] h1 h2 show ?thesis by simp
qed

text \<open>
  Claim C6: for a stored challenge and a user identity with no roster entry, accept and
  complete both answer 404 ``User not in participant list'' and return the state they
  were given.
\<close>

theorem non_participant_not_found:
  assumes "CommunityChallenge s challengeId = Some challenge"
    and "userId \<notin> p_userId ` set (participants challenge)"
  shows "accept challengeId userId s =
           (\<lparr>status = 404, json = ErrorJson ''User not in participant list''\<rparr>, s)
         \<and> complete challengeId userId now s =
           (\<lparr>status = 404, json = ErrorJson ''User not in participant list''\<rparr>, s)"
proof -
  from assms(2) have "find (\<lambda>p. p_userId p = userId) (participants challenge) = None"
    by (simp add: find_userId_None)
  with assms(1) show ?thesis by (simp add: accept_def complete_def)
qed

theorem non_participant_not_found_witness:
  "CommunityChallenge demo_state 100 = Some demo_challenge
   \<and> ''u4'' \<notin> p_userId ` set (participants demo_challenge)
   \<and> accept 100 ''u4'' demo_state =
       (\<lparr>status = 404, json = ErrorJson ''User not in participant list''\<rparr>, demo_state)
   \<and> complete 100 ''u4'' 5 demo_state =
       (\<lparr>status = 404, json = ErrorJson ''User not in participant list''\<rparr>, demo_state)"
proof -
  have h1: "CommunityChallenge demo_state 100 = Some demo_challenge"
    by (simp add: demo_state_eq)
  have h2: "''u4'' \<notin> p_userId ` set (participants demo_challenge)"
    by (simp add: demo_challenge_def new_participant_def)
  from non_participant_not_found[OF h1 h2, of 5] h1 h2 show ?thesis by simp
qed

text \<open>
  Claim C7: for a stored challenge and a user identity in its roster, let \<open>i\<close> be the
  position of the first roster entry of that identity. accept answers 200 and stores the
  challenge with entry \<open>i\<close> changed in \<open>accepted\<close> and \<open>stakeSubmitted\<close> only; complete
  answers 200 and stores the challenge with entry \<open>i\<close> changed in \<open>completed\<close> and
  \<open>completedAt\<close> only. Every other roster entry, every other field of the challenge and
  every other part of the state is as before.
\<close>

theorem accept_complete_frame:
  assumes "CommunityChallenge s challengeId = Some challenge"
    and "userId \<in> p_userId ` set (participants challenge)"
  shows "\<exists>i<length (participants challenge).
           p_userId (participants challenge ! i) = userId
         \<and> (\<forall>j<i. p_userId (participants challenge ! j) \<noteq> userId)
         \<and> accept challengeId userId s =
             (\<lparr>status = 200,
               json = MessageChallengeJson ''Challenge accepted'' challengeId
                 (challenge\<lparr>participants := (participants challenge)
                    [i := (participants challenge ! i)\<lparr>accepted := True, stakeSubmitted := True\<rparr>]\<rparr>)\<rparr>,
              s\<lparr>CommunityChallenge := (CommunityChallenge s)(challengeId \<mapsto>
                 challenge\<lparr>participants := (participants challenge)
                    [i := (participants challenge ! i)\<lparr>accepted := True, stakeSubmitted := True\<rparr>]\<rparr>)\<rparr>)
         \<and> complete challengeId userId now s =
             (\<lparr>status = 200,
               json = MessageChallengeJson ''Challenge marked as completed'' challengeId
                 (challenge\<lparr>participants := (participants challenge)
                    [i := (participants challenge ! i)\<lparr>completed := True, completedAt := Some now\<rparr>]\<rparr>)\<rparr>,
              s\<lparr>CommunityChallenge := (CommunityChallenge s)(challengeId \<mapsto>
                 challenge\<lparr>participants := (participants challenge)
                    [i := (participants challenge ! i)\<lparr>completed := True, completedAt := Some now\<rparr>]\<rparr>)\<rparr>)"
proof -
  let ?P = "\<lambda>p. p_userId p = userId"
  let ?ps = "participants challenge"
  from assms(2) obtain p where found: "find ?P ?ps = Some p"
    using find_userId_Some by blast
  from find_update_first[OF found, of "\<lambda>p. p\<lparr>accepted := True, stakeSubmitted := True\<rparr>"]
  obtain i where i: "i < length ?ps" "?ps ! i = p" "\<forall>j<i. \<not> ?P (?ps ! j)"
    and a: "update_first ?P (\<lambda>p. p\<lparr>accepted := True, stakeSubmitted := True\<rparr>) ?ps
              = ?ps[i := p\<lparr>accepted := True, stakeSubmitted := True\<rparr>]"
    and Pp: "?P p"
    by blast
  from find_update_first[OF found, of "\<lambda>p. p\<lparr>completed := True, completedAt := Some now\<rparr>"]
  obtain k where k: "k < length ?ps" "?ps ! k = p" "\<forall>j<k. \<not> ?P (?ps ! j)"
    and c: "update_first ?P (\<lambda>p. p\<lparr>completed := True, completedAt := Some now\<rparr>) ?ps
              = ?ps[k := p\<lparr>completed := True, completedAt := Some now\<rparr>]"
    by blast
  have "k = i"
  proof (rule ccontr)
    assume "k \<noteq> i"
    then consider "k < i" | "i < k" by linarith
    then show False
    proof cases
      case 1
      with i(3) k(2) Pp show False by auto
    next
      case 2
      with k(3) i(2) Pp show False by auto
    qed
  qed
  with c have c': "update_first ?P (\<lambda>p. p\<lparr>completed := True, completedAt := Some now\<rparr>) ?ps
              = ?ps[i := p\<lparr>completed := True, completedAt := Some now\<rparr>]" by simp
  have acc: "accept challengeId userId s =
       (\<lparr>status = 200,
         json = MessageChallengeJson ''Challenge accepted'' challengeId
           (challenge\<lparr>participants := ?ps[i := (?ps ! i)\<lparr>accepted := True, stakeSubmitted := True\<rparr>]\<rparr>)\<rparr>,
        s\<lparr>CommunityChallenge := (CommunityChallenge s)(challengeId \<mapsto>
           challenge\<lparr>participants := ?ps[i := (?ps ! i)\<lparr>accepted := True, stakeSubmitted := True\<rparr>]\<rparr>)\<rparr>)"
    using assms(1) found a i(2) by (simp add: accept_def save_def Let_def)
  have comp: "complete challengeId userId now s =
       (\<lparr>status = 200,
         json = MessageChallengeJson ''Challenge marked as completed'' challengeId
           (challenge\<lparr>participants := ?ps[i := (?ps ! i)\<lparr>completed := True, completedAt := Some now\<rparr>]\<rparr>)\<rparr>,
        s\<lparr>CommunityChallenge := (CommunityChallenge s)(challengeId \<mapsto>
           challenge\<lparr>participants := ?ps[i := (?ps ! i)\<lparr>completed := True, completedAt := Some now\<rparr>]\<rparr>)\<rparr>)"
    using assms(1) found c' i(2) by (simp add: complete_def save_def Let_def)
  from i Pp have "p_userId (?ps ! i) = userId" "\<forall>j<i. p_userId (?ps ! j) \<noteq> userId" by auto
  with i(1) acc comp show ?thesis by blast
qed

theorem accept_complete_frame_witness:
  "CommunityChallenge demo_state 100 = Some demo_challenge
   \<and> ''u2'' \<in> p_userId ` set (participants demo_challenge)
   \<and> (\<exists>i<length (participants demo_challenge).
           p_userId (participants demo_challenge ! i) = ''u2''
         \<and> accept 100 ''u2'' demo_state =
             (\<lparr>status = 200,
               json = MessageChallengeJson ''Challenge accepted'' 100
                 (demo_challenge\<lparr>participants := (participants demo_challenge)
                    [i := (participants demo_challenge ! i)\<lparr>accepted := True, stakeSubmitted := True\<rparr>]\<rparr>)\<rparr>,
              demo_state\<lparr>CommunityChallenge := (CommunityChallenge demo_state)(100 \<mapsto>
                 demo_challenge\<lparr>participants := (participants demo_challenge)
                    [i := (participants demo_challenge ! i)\<lparr>accepted := True, stakeSubmitted := True\<rparr>]\<rparr>)\<rparr>)
         \<and> complete 100 ''u2'' 77 demo_state =
             (\<lparr>status = 200,
               json = MessageChallengeJson ''Challenge marked as completed'' 100
                 (demo_challenge\<lparr>participants := (participants demo_challenge)
                    [i := (participants demo_challenge ! i)\<lparr>completed := True, completedAt := Some 77\<rparr>]\<rparr>)\<rparr>,
              demo_state\<lparr>CommunityChallenge := (CommunityChallenge demo_state)(100 \<mapsto>
                 demo_challenge\<lparr>participants := (participants demo_challenge)
                    [i := (participants demo_challenge ! i)\<lparr>completed := True, completedAt := Some 77\<rparr>]\<rparr>)\<rparr>))
   \<and> participants (the (CommunityChallenge (snd (accept 100 ''u2'' demo_state)) 100))
       = [new_participant ''u1'', (new_participant ''u2'')\<lparr>accepted := True, stakeSubmitted := True\<rparr>]"
proof -
  have h1: "CommunityChallenge demo_state 100 = Some demo_challenge"
    by (simp add: demo_state_eq)
  have h2: "''u2'' \<in> p_userId ` set (participants demo_challenge)"
    by (simp add: demo_challenge_def new_participant_def)
  from accept_complete_frame[OF h1 h2, of 77]
  have inst: "\<exists>i<length (participants demo_challenge).
           p_userId (participants demo_challenge ! i) = ''u2''
         \<and> accept 100 ''u2'' demo_state =
             (\<lparr>status = 200,
               json = MessageChallengeJson ''Challenge accepted'' 100
                 (demo_challenge\<lparr>participants := (participants demo_challenge)
                    [i := (participants demo_challenge ! i)\<lparr>accepted := True, stakeSubmitted := True\<rparr>]\<rparr>)\<rparr>,
              demo_state\<lparr>CommunityChallenge := (CommunityChallenge demo_state)(100 \<mapsto>
                 demo_challenge\<lparr>participants := (participants demo_challenge)
                    [i := (participants demo_challenge ! i)\<lparr>accepted := True, stakeSubmitted := True\<rparr>]\<rparr>)\<rparr>)
         \<and> complete 100 ''u2'' 77 demo_state =
             (\<lparr>status = 200,
               json = MessageChallengeJson ''Challenge marked as completed'' 100
                 (demo_challenge\<lparr>participants := (participants demo_challenge)
                    [i := (participants demo_challenge ! i)\<lparr>completed := True, completedAt := Some 77\<rparr>]\<rparr>)\<rparr>,
              demo_state\<lparr>CommunityChallenge := (CommunityChallenge demo_state)(100 \<mapsto>
                 demo_challenge\<lparr>participants := (participants demo_challenge)
                    [i := (participants demo_challenge ! i)\<lparr>completed := True, completedAt := Some 77\<rparr>]\<rparr>)\<rparr>)"
    by blast
  have conc: "participants (the (CommunityChallenge (snd (accept 100 ''u2'' demo_state)) 100))
       = [new_participant ''u1'', (new_participant ''u2'')\<lparr>accepted := True, stakeSubmitted := True\<rparr>]"
    by (simp add: accept_def save_def demo_state_eq demo_challenge_def new_participant_def Let_def)
  from h1 h2 inst conc show ?thesis by (intro conjI)
qed

text \<open>
  Claim C8: create stores the new challenge, with an empty roster, under a fresh id
  whatever the community lookup gives. If the community is not stored, the response is
  404 ``Community not found'' and the resulting state is the given one with that challenge
  added and nothing else done: no notification is stored and no effect happens.
\<close>

theorem create_challenge_persisted_first:
  "CommunityChallenge (snd (create communityId name description exercises stake clock s))
     (next_oid s)
     = Some \<lparr>ch_communityId = communityId, ch_name = name, ch_description = description,
             ch_exercises = exercises, ch_stake = stake, participants = []\<rparr>
   \<and> (Community s communityId = None \<longrightarrow>
        create communityId name description exercises stake clock s =
          (\<lparr>status = 404, json = MessageJson ''Community not found''\<rparr>,
           s\<lparr>CommunityChallenge := (CommunityChallenge s)(next_oid s \<mapsto>
                \<lparr>ch_communityId = communityId, ch_name = name, ch_description = description,
                 ch_exercises = exercises, ch_stake = stake, participants = []\<rparr>),
             next_oid := Suc (next_oid s)\<rparr>)
      \<and> Notification (snd (create communityId name description exercises stake clock s))
          = Notification s
      \<and> effects (snd (create communityId name description exercises stake clock s))
          = effects s)"
proof (cases "Community s communityId")
  case None
  from create_absent[OF None] show ?thesis using None by simp
next
  case (Some community)
  from create_found[OF Some] show ?thesis using Some by simp
qed

theorem create_challenge_persisted_first_witness:
  "Community demo_state 9 = None
   \<and> create 9 ''Pushups'' ''Daily pushups'' [''pushup''] \<lparr>amount = 10\<rparr> (\<lambda>i. 50) demo_state =
       (\<lparr>status = 404, json = MessageJson ''Community not found''\<rparr>,
        demo_state\<lparr>CommunityChallenge := (CommunityChallenge demo_state)(200 \<mapsto>
             \<lparr>ch_communityId = 9, ch_name = ''Pushups'', ch_description = ''Daily pushups'',
              ch_exercises = [''pushup''], ch_stake = \<lparr>amount = 10\<rparr>, participants = []\<rparr>),
          next_oid := 201\<rparr>)
   \<and> CommunityChallenge (snd (create 9 ''Pushups'' ''Daily pushups'' [''pushup'']
        \<lparr>amount = 10\<rparr> (\<lambda>i. 50) demo_state)) 200
       = Some \<lparr>ch_communityId = 9, ch_name = ''Pushups'', ch_description = ''Daily pushups'',
              ch_exercises = [''pushup''], ch_stake = \<lparr>amount = 10\<rparr>, participants = []\<rparr>
   \<and> Notification (snd (create 9 ''Pushups'' ''Daily pushups'' [''pushup'']
        \<lparr>amount = 10\<rparr> (\<lambda>i. 50) demo_state)) = []
   \<and> effects (snd (create 9 ''Pushups'' ''Daily pushups'' [''pushup'']
        \<lparr>amount = 10\<rparr> (\<lambda>i. 50) demo_state)) = []"
proof -
  have h: "Community demo_state 9 = None"
    by (simp add: demo_state_eq)
  have e: "Notification demo_state = []" "effects demo_state = []" "next_oid demo_state = 200"
    by (simp_all add: demo_state_eq)
  from create_challenge_persisted_first[of 9 "''Pushups''" "''Daily pushups''" "[''pushup'']"
      "\<lparr>amount = 10\<rparr>" "\<lambda>i. 50" demo_state] h
  show ?thesis by (simp add: e)
qed

text \<open>
  Claim C9: for a stored challenge and a user identity in its roster, accept answers 200,
  and a second accept on the resulting state gives the same response and leaves that
  state as it is, with the participant accepted and its stake submitted.
\<close>

theorem accept_idempotent:
  assumes "CommunityChallenge s challengeId = Some challenge"
    and "userId \<in> p_userId ` set (participants challenge)"
  shows "status (fst (accept challengeId userId s)) = 200
       \<and> accept challengeId userId (snd (accept challengeId userId s)) = accept challengeId userId s
       \<and> (\<exists>challenge' p.
            CommunityChallenge (snd (accept challengeId userId s)) challengeId = Some challenge'
          \<and> find (\<lambda>p. p_userId p = userId) (participants challenge') = Some p
          \<and> accepted p \<and> stakeSubmitted p)"
proof -
  let ?P = "\<lambda>p. p_userId p = userId"
  let ?f = "\<lambda>p. p\<lparr>accepted := True, stakeSubmitted := True\<rparr>"
  let ?ps = "participants challenge"
  from assms(2) obtain p where found: "find ?P ?ps = Some p"
    using find_userId_Some by blast
  then have Pp: "?P p" by (auto simp: find_Some_iff)
  have found': "find ?P (update_first ?P ?f ?ps) = Some (?f p)"
    using found Pp by (intro find_after_update_first) simp_all
  have idem: "update_first ?P ?f (update_first ?P ?f ?ps) = update_first ?P ?f ?ps"
    by (rule update_first_idem) simp
  have first: "accept challengeId userId s =
     (\<lparr>status = 200, json = MessageChallengeJson ''Challenge accepted'' challengeId
         (challenge\<lparr>participants := update_first ?P ?f ?ps\<rparr>)\<rparr>,
      s\<lparr>CommunityChallenge := (CommunityChallenge s)(challengeId \<mapsto>
         challenge\<lparr>participants := update_first ?P ?f ?ps\<rparr>)\<rparr>)"
    using assms(1) found by (simp add: accept_def save_def Let_def)
  have second: "accept challengeId userId (snd (accept challengeId userId s))
      = accept challengeId userId s"
    unfolding first using found' idem by (simp add: accept_def save_def Let_def)
  from first found' second show ?thesis by simp
qed

theorem accept_idempotent_witness:
  "CommunityChallenge demo_state 100 = Some demo_challenge
   \<and> ''u1'' \<in> p_userId ` set (participants demo_challenge)
   \<and> status (fst (accept 100 ''u1'' demo_state)) = 200
   \<and> status (fst (accept 100 ''u1'' (snd (accept 100 ''u1'' demo_state)))) = 200
   \<and> accept 100 ''u1'' (snd (accept 100 ''u1'' demo_state)) = accept 100 ''u1'' demo_state
   \<and> (\<exists>challenge' p.
        CommunityChallenge (snd (accept 100 ''u1'' demo_state)) 100 = Some challenge'
      \<and> find (\<lambda>p. p_userId p = ''u1'') (participants challenge') = Some p
      \<and> accepted p \<and> stakeSubmitted p)"
proof -
  have h1: "CommunityChallenge demo_state 100 = Some demo_challenge"
    by (simp add: demo_state_eq)
  have h2: "''u1'' \<in> p_userId ` set (participants demo_challenge)"
    by (simp add: demo_challenge_def new_participant_def)
  from accept_idempotent[OF h1 h2] h1 h2 show ?thesis by simp
qed

text \<open>
  Claim C10: if \<^verbatim>\<open>io\<close> or \<^verbatim>\<open>userSockets\<close> is unset, create on a stored community with
  \<open>N\<close> members answers 200 with the saved challenge, stores the challenge and the \<open>N\<close>
  notifications (one per member), and its only effect is the bulk insert: no push.
\<close>

theorem create_without_socket_server:
  assumes "Community s communityId = Some community"
    and "io s = None \<or> userSockets s = None"
  shows "\<exists>saved.
      create communityId name description exercises stake clock s =
        (\<lparr>status = 200,
          json = ChallengeJson (next_oid s)
            \<lparr>ch_communityId = communityId, ch_name = name, ch_description = description,
             ch_exercises = exercises, ch_stake = stake, participants = []\<rparr>\<rparr>,
         s\<lparr>CommunityChallenge := (CommunityChallenge s)(next_oid s \<mapsto>
              \<lparr>ch_communityId = communityId, ch_name = name, ch_description = description,
               ch_exercises = exercises, ch_stake = stake, participants = []\<rparr>),
           Notification := Notification s @ saved,
           next_oid := Suc (next_oid s) + length (members community),
           effects := effects s @ [InsertMany saved]\<rparr>)
    \<and> length saved = length (members community)
    \<and> map n_userId saved = map m_userId (members community)"
proof -
  let ?ids = "map m_userId (members community)"
  let ?saved = "assign_ids (Suc (next_oid s))
     (map (\<lambda>(i, u). invite (next_oid s) communityId name description stake (clock i) u)
        (enumerate 0 ?ids))"
  have len: "length ?saved = length (members community)"
    using saved_invites(1)[of "Suc (next_oid s)" _ _ _ _ _ clock ?ids] by simp
  have users: "map n_userId ?saved = ?ids"
    by (rule saved_invites(2))
  have "(case (io s, userSockets s) of
           (Some server, Some sockets) \<Rightarrow> emitted sockets ?saved
         | _ \<Rightarrow> []) = []"
    using assms(2) by (auto split: option.splits)
  with create_found[OF assms(1), of name description exercises stake clock]
  have "create communityId name description exercises stake clock s =
        (\<lparr>status = 200,
          json = ChallengeJson (next_oid s)
            \<lparr>ch_communityId = communityId, ch_name = name, ch_description = description,
             ch_exercises = exercises, ch_stake = stake, participants = []\<rparr>\<rparr>,
         s\<lparr>CommunityChallenge := (CommunityChallenge s)(next_oid s \<mapsto>
              \<lparr>ch_communityId = communityId, ch_name = name, ch_description = description,
               ch_exercises = exercises, ch_stake = stake, participants = []\<rparr>),
           Notification := Notification s @ ?saved,
           next_oid := Suc (next_oid s) + length (members community),
           effects := effects s @ [InsertMany ?saved]\<rparr>)"
    by simp
  with len users show ?thesis by blast
qed

theorem create_without_socket_server_witness:
  "Community demo_uninitialized 1 = Some demo_community
   \<and> io demo_uninitialized = None
   \<and> status (fst (create 1 ''Pushups'' ''Daily pushups'' [''pushup'']
        \<lparr>amount = 10\<rparr> (\<lambda>i. 50) demo_uninitialized)) = 200
   \<and> CommunityChallenge (snd (create 1 ''Pushups'' ''Daily pushups'' [''pushup'']
        \<lparr>amount = 10\<rparr> (\<lambda>i. 50) demo_uninitialized)) 200
       = Some \<lparr>ch_communityId = 1, ch_name = ''Pushups'', ch_description = ''Daily pushups'',
              ch_exercises = [''pushup''], ch_stake = \<lparr>amount = 10\<rparr>, participants = []\<rparr>
   \<and> map n_userId (Notification (snd (create 1 ''Pushups'' ''Daily pushups'' [''pushup'']
        \<lparr>amount = 10\<rparr> (\<lambda>i. 50) demo_uninitialized))) = [''u1'', ''u2'', ''u3'']
   \<and> effects (snd (create 1 ''Pushups'' ''Daily pushups'' [''pushup'']
        \<lparr>amount = 10\<rparr> (\<lambda>i. 50) demo_uninitialized))
       = [InsertMany (Notification (snd (create 1 ''Pushups'' ''Daily pushups'' [''pushup'']
        \<lparr>amount = 10\<rparr> (\<lambda>i. 50) demo_uninitialized)))]"
proof -
  have h1: "Community demo_uninitialized 1 = Some demo_community"
    and h2: "io demo_uninitialized = None"
    by (simp_all add: demo_uninitialized_def)
  have e: "Notification demo_uninitialized = []" "effects demo_uninitialized = []"
    "next_oid demo_uninitialized = 200"
    by (simp_all add: demo_uninitialized_def)
  have m: "map m_userId (members demo_community) = [''u1'', ''u2'', ''u3'']"
    by (simp add: demo_community_def)
  from h2 have h2': "io demo_uninitialized = None \<or> userSockets demo_uninitialized = None"
    by (rule disjI1)
  from create_without_socket_server[OF h1 h2', of "''Pushups''" "''Daily pushups''"
      "[''pushup'']" "\<lparr>amount = 10\<rparr>" "\<lambda>i. 50"]
  obtain saved where c: "create 1 ''Pushups'' ''Daily pushups'' [''pushup'']
        \<lparr>amount = 10\<rparr> (\<lambda>i. 50) demo_uninitialized =
        (\<lparr>status = 200,
          json = ChallengeJson 200
            \<lparr>ch_communityId = 1, ch_name = ''Pushups'', ch_description = ''Daily pushups'',
             ch_exercises = [''pushup''], ch_stake = \<lparr>amount = 10\<rparr>, participants = []\<rparr>\<rparr>,
         demo_uninitialized\<lparr>CommunityChallenge := (CommunityChallenge demo_uninitialized)(200 \<mapsto>
              \<lparr>ch_communityId = 1, ch_name = ''Pushups'', ch_description = ''Daily pushups'',
               ch_exercises = [''pushup''], ch_stake = \<lparr>amount = 10\<rparr>, participants = []\<rparr>),
           Notification := saved,
           next_oid := Suc 200 + length (members demo_community),
           effects := [InsertMany saved]\<rparr>)"
    and u: "map n_userId saved = [''u1'', ''u2'', ''u3'']"
    by (auto simp: e m)
  from h1 h2 u show ?thesis unfolding c by simp
qed

end
